theory Spec2Isabelle
  imports Main
begin

section \<open>CodeBuild pipeline actions: data model\<close>

text \<open>
  The development follows \<^verbatim>\<open>packages/@aws-cdk/aws-codebuild/lib/pipeline-actions.ts\<close>.
  The two action classes, the two helpers \<^verbatim>\<open>setCodeBuildNeededPermissions\<close> and
  \<^verbatim>\<open>handleAdditionalInputOutputArtifacts\<close>, and \<^verbatim>\<open>findOutputArtifact\<close> are
  translated from that file. The classes they extend and the objects they call
  (\<^verbatim>\<open>codepipeline.Action\<close>, \<^verbatim>\<open>BuildAction\<close>, \<^verbatim>\<open>TestAction\<close>, the IAM role and
  policy statement, the pipeline's bucket grants) live in other packages; each of
  those is modelled from the specification and marked so.
\<close>

text \<open>
  An artifact is a named unit of data with a reference to the action that produces it.
  Names are JavaScript strings compared with \<^verbatim>\<open>===\<close>; here they are HOL strings
  compared with equality.
\<close>

datatype artifact = Artifact (producer: string) (name: string)

record bounds =
  minInputs :: nat
  maxInputs :: nat
  minOutputs :: nat
  maxOutputs :: nat

record policy_statement =
  resources :: "string list"
  actions :: "string list"

record project =
  projectName :: string
  projectArn :: string
  projectRole :: string

text \<open>
  The stage gives access to \<^verbatim>\<open>stage.pipeline.role\<close> (a role, named by an identifier of
  the role store below) and to the two defaults the base classes ask the stage for:
  the input artifact used when no \<^verbatim>\<open>inputArtifact\<close> is supplied, and the generated
  name of a build's output artifact when no \<^verbatim>\<open>outputArtifactName\<close> is supplied. Both are
  opaque values supplied from upstream.
\<close>

record stage =
  pipelineRole :: string
  findInputArtifact :: artifact
  generateOutputArtifactName :: string

text \<open>
  \<^verbatim>\<open>PipelineBuildActionProps\<close> and \<^verbatim>\<open>PipelineTestActionProps\<close> have the same fields.
  A field marked \<^verbatim>\<open>?\<close> in the source is an option.
\<close>

record props =
  stage :: stage
  project :: project
  inputArtifact :: "artifact option"
  outputArtifactName :: "string option"
  additionalInputArtifacts :: "artifact list option"
  additionalOutputArtifactNames :: "string list option"

text \<open>
  The action object: \<^verbatim>\<open>_inputArtifacts\<close>, \<^verbatim>\<open>_outputArtifacts\<close>, \<^verbatim>\<open>configuration\<close>,
  the \<^verbatim>\<open>outputArtifact\<close> property of the build and test base classes, and the bounds
  handed to the base constructor.
\<close>

record action =
  actionName :: string
  artifactBounds :: bounds
  configuration :: "string \<rightharpoonup> string"
  inputArtifacts :: "artifact list"
  outputArtifacts :: "artifact list"
  outputArtifact :: "artifact option"

datatype access = ReadOnly | ReadWrite

text \<open>
  Every call the constructors make on a collaborator, in the order it is made.
\<close>

datatype call =
    AddInputArtifact artifact
  | AddOutputArtifact string
  | AddToPolicy string policy_statement
  | GrantBucketReadWrite string
  | GrantBucketRead string

text \<open>
  The objects outside the action that construction mutates: the policy of each role
  (statements are appended, never replaced), the grants the pipeline has handed out
  on its artifact bucket, and the log of calls.
\<close>

record world =
  rolePolicy :: "string \<Rightarrow> policy_statement list"
  bucketGrants :: "(string \<times> access) list"
  calls :: "call list"

type_synonym state = "action \<times> world"

text \<open>
  \<^verbatim>\<open>BoundsViolation\<close> is the specification's name for a failed bounds check,
  \<^verbatim>\<open>TypeError\<close> is what JavaScript raises on reading a property of \<^verbatim>\<open>undefined\<close>, and
  \<^verbatim>\<open>Error\<close> is \<^verbatim>\<open>new Error(message)\<close>.
\<close>

datatype error = BoundsViolation | TypeError | Error string

text \<open>
  A raise leaves the mutations made so far in place, so an outcome carries the state
  in both cases.
\<close>

datatype outcome = Done state | Raised error state

fun state_of :: "outcome \<Rightarrow> state" where
  "state_of (Done s) = s"
| "state_of (Raised e s) = s"

definition action_of :: "outcome \<Rightarrow> action" where
  "action_of r = fst (state_of r)"

definition world_of :: "outcome \<Rightarrow> world" where
  "world_of r = snd (state_of r)"

fun raised :: "outcome \<Rightarrow> error option" where
  "raised (Done s) = None"
| "raised (Raised e s) = Some e"

definition succeeded :: "outcome \<Rightarrow> bool" where
  "succeeded r = (raised r = None)"

text \<open>\<^verbatim>\<open>xs || []\<close> for an optional array, and \<^verbatim>\<open>!!s\<close> for an optional string.\<close>

fun orEmpty :: "'a list option \<Rightarrow> 'a list" where
  "orEmpty None = []"
| "orEmpty (Some xs) = xs"

fun truthy :: "string option \<Rightarrow> bool" where
  "truthy None = False"
| "truthy (Some s) = (s \<noteq> [])"

section \<open>Collaborators outside the file\<close>

text \<open>
  Modelled from the spec: \<^verbatim>\<open>iam.PolicyStatement\<close> and its builder methods
  \<^verbatim>\<open>addResource\<close> and \<^verbatim>\<open>addActions\<close> (package aws-iam, not in src). A statement grants
  its actions on its resources; the builders append.
\<close>

definition PolicyStatement :: policy_statement where
  "PolicyStatement = \<lparr>resources = [], actions = []\<rparr>"

definition addResource :: "string \<Rightarrow> policy_statement \<Rightarrow> policy_statement" where
  "addResource arn st = st\<lparr>resources := resources st @ [arn]\<rparr>"

definition addActions :: "string list \<Rightarrow> policy_statement \<Rightarrow> policy_statement" where
  "addActions as st = st\<lparr>actions := actions st @ as\<rparr>"

text \<open>
  Modelled from the spec: \<^verbatim>\<open>Role.addToPolicy\<close> (package aws-iam, not in src). The
  specification's role is mutated by appending policy statements.
\<close>

definition addToPolicy :: "string \<Rightarrow> policy_statement \<Rightarrow> world \<Rightarrow> world" where
  "addToPolicy r st w =
     w\<lparr>rolePolicy := (rolePolicy w)(r := rolePolicy w r @ [st]),
       calls := calls w @ [AddToPolicy r st]\<rparr>"

text \<open>
  Modelled from the spec: the pipeline's \<^verbatim>\<open>grantBucketReadWrite\<close> and
  \<^verbatim>\<open>grantBucketRead\<close> (package aws-codepipeline, not in src). The specification
  describes them as granting a role read-write or read-only access to the pipeline's
  artifact store; the model records the grant on the pipeline.
\<close>

definition grantBucketReadWrite :: "string \<Rightarrow> world \<Rightarrow> world" where
  "grantBucketReadWrite r w =
     w\<lparr>bucketGrants := bucketGrants w @ [(r, ReadWrite)],
       calls := calls w @ [GrantBucketReadWrite r]\<rparr>"

definition grantBucketRead :: "string \<Rightarrow> world \<Rightarrow> world" where
  "grantBucketRead r w =
     w\<lparr>bucketGrants := bucketGrants w @ [(r, ReadOnly)],
       calls := calls w @ [GrantBucketRead r]\<rparr>"

text \<open>
  Modelled from the spec: \<^verbatim>\<open>Action.addInputArtifact\<close> and \<^verbatim>\<open>Action.addOutputArtifact\<close>
  (package aws-codepipeline-api, not in src). The specification appends each input and
  each output name in declaration order; an output artifact is created from its name
  with the action as its producer.
\<close>

definition addInputArtifact :: "artifact \<Rightarrow> state \<Rightarrow> state" where
  "addInputArtifact a s =
     ((fst s)\<lparr>inputArtifacts := inputArtifacts (fst s) @ [a]\<rparr>,
      (snd s)\<lparr>calls := calls (snd s) @ [AddInputArtifact a]\<rparr>)"

definition addOutputArtifact :: "string \<Rightarrow> state \<Rightarrow> state" where
  "addOutputArtifact n s =
     ((fst s)\<lparr>outputArtifacts := outputArtifacts (fst s) @ [Artifact (actionName (fst s)) n]\<rparr>,
      (snd s)\<lparr>calls := calls (snd s) @ [AddOutputArtifact n]\<rparr>)"

text \<open>
  Modelled from the spec: the constructor of the base class \<^verbatim>\<open>Action\<close> (not in src):
  a fresh action with the given bounds and configuration and empty artifact lists.
\<close>

definition Action :: "string \<Rightarrow> bounds \<Rightarrow> (string \<rightharpoonup> string) \<Rightarrow> action" where
  "Action nm b cfg =
     \<lparr>actionName = nm, artifactBounds = b, configuration = cfg,
      inputArtifacts = [], outputArtifacts = [], outputArtifact = None\<rparr>"

text \<open>
  Modelled from the spec: how the base classes resolve the primary input and the
  name of a build's primary output (not in src). A supplied value is used as it is;
  without one the value comes from the stage, as an opaque upstream-supplied default.
\<close>

definition primaryInput :: "props \<Rightarrow> artifact" where
  "primaryInput p =
     (case inputArtifact p of Some a \<Rightarrow> a | None \<Rightarrow> findInputArtifact (stage p))"

definition primaryOutputName :: "props \<Rightarrow> string" where
  "primaryOutputName p =
     (case outputArtifactName p of Some n \<Rightarrow> n
      | None \<Rightarrow> generateOutputArtifactName (stage p))"

text \<open>
  Modelled from the spec: the constructor of \<^verbatim>\<open>codepipeline.BuildAction\<close> (not in src).
  The input list starts with the primary input; the output list of a build action
  always has a primary output at index 0, which is also its \<^verbatim>\<open>outputArtifact\<close>.
\<close>

definition BuildAction ::
  "string \<Rightarrow> bounds \<Rightarrow> (string \<rightharpoonup> string) \<Rightarrow> props \<Rightarrow> world \<Rightarrow> state" where
  "BuildAction nm b cfg p w =
     (let s0 = (Action nm b cfg, w);
          s1 = addInputArtifact (primaryInput p) s0;
          s2 = addOutputArtifact (primaryOutputName p) s1
      in ((fst s2)\<lparr>outputArtifact := Some (Artifact nm (primaryOutputName p))\<rparr>, snd s2))"

text \<open>
  Modelled from the spec: the constructor of \<^verbatim>\<open>codepipeline.TestAction\<close> (not in src).
  The primary output is optional: it is the first entry of the output list, and the
  value of \<^verbatim>\<open>outputArtifact\<close>, when a primary output name is supplied; otherwise the
  output list starts empty and \<^verbatim>\<open>outputArtifact\<close> is undefined.
\<close>

definition TestAction ::
  "string \<Rightarrow> bounds \<Rightarrow> (string \<rightharpoonup> string) \<Rightarrow> props \<Rightarrow> world \<Rightarrow> state" where
  "TestAction nm b cfg p w =
     (let s0 = (Action nm b cfg, w);
          s1 = addInputArtifact (primaryInput p) s0
      in (case outputArtifactName p of
            None \<Rightarrow> s1
          | Some n \<Rightarrow>
              (let s2 = addOutputArtifact n s1
               in ((fst s2)\<lparr>outputArtifact := Some (Artifact nm n)\<rparr>, snd s2))))"

text \<open>
  Modelled from the spec: the bounds check of the base class (not in src). After both
  lists are finalized the input count and the output count are checked against the
  bounds; a violation is a construction-time failure.
\<close>

definition validate :: "state \<Rightarrow> outcome" where
  "validate s =
     (let a = fst s; b = artifactBounds a in
      if minInputs b \<le> length (inputArtifacts a) \<and> length (inputArtifacts a) \<le> maxInputs b
         \<and> minOutputs b \<le> length (outputArtifacts a) \<and> length (outputArtifacts a) \<le> maxOutputs b
      then Done s
      else Raised BoundsViolation s)"

section \<open>The functions of pipeline-actions.ts\<close>

text \<open>
  \<^verbatim>\<open>setCodeBuildNeededPermissions(stage, project, needsPipelineBucketWrite)\<close>: the
  pipeline role gets a statement on the project's ARN, then the project role gets
  either the read-write or the read grant on the pipeline's bucket.
\<close>

definition setCodeBuildNeededPermissions :: "stage \<Rightarrow> project \<Rightarrow> bool \<Rightarrow> world \<Rightarrow> world" where
  "setCodeBuildNeededPermissions stg prj needsPipelineBucketWrite w =
     (let w1 = addToPolicy (pipelineRole stg)
                 (addActions [''codebuild:BatchGetBuilds'', ''codebuild:StartBuild'',
                              ''codebuild:StopBuild'']
                   (addResource (projectArn prj) PolicyStatement)) w
      in if needsPipelineBucketWrite
         then grantBucketReadWrite (projectRole prj) w1
         else grantBucketRead (projectRole prj) w1)"

text \<open>
  \<^verbatim>\<open>handleAdditionalInputOutputArtifacts(props, action, addInputArtifact,
  addOutputArtifact)\<close>. The two mutators are parameters, as in the source; the action
  they act on is the first component of the state. With additional inputs declared,
  \<^verbatim>\<open>action._inputArtifacts[0].name\<close> is read first: on an empty input list
  \<^verbatim>\<open>_inputArtifacts[0]\<close> is \<^verbatim>\<open>undefined\<close> and reading its \<^verbatim>\<open>name\<close> raises a TypeError
  before anything is changed.
\<close>

definition handleAdditionalInputOutputArtifacts ::
  "props \<Rightarrow> (artifact \<Rightarrow> state \<Rightarrow> state) \<Rightarrow> (string \<Rightarrow> state \<Rightarrow> state) \<Rightarrow> state \<Rightarrow> outcome" where
  "handleAdditionalInputOutputArtifacts p addIn addOut s =
     (case (if length (orEmpty (additionalInputArtifacts p)) > 0
            then (case inputArtifacts (fst s) of
                    [] \<Rightarrow> Raised TypeError s
                  | a0 # _ \<Rightarrow>
                      Done (fold addIn (orEmpty (additionalInputArtifacts p))
                              ((fst s)\<lparr>configuration :=
                                   (configuration (fst s))(''PrimarySource'' \<mapsto> name a0)\<rparr>,
                               snd s)))
            else Done s) of
        Raised e s' \<Rightarrow> Raised e s'
      | Done s' \<Rightarrow> Done (fold addOut (orEmpty (additionalOutputArtifactNames p)) s'))"

text \<open>
  \<^verbatim>\<open>findOutputArtifact(artifacts, name)\<close>: \<^verbatim>\<open>Array.prototype.find\<close> returns the first
  element whose name is the given one; when there is none the function throws an
  \<^verbatim>\<open>Error\<close> whose message quotes the name.
\<close>

definition notFoundMessage :: "string \<Rightarrow> string" where
  "notFoundMessage n =
     ''Could not find output artifact with name '' @ [CHR 0x27] @ n @ [CHR 0x27]"

definition findOutputArtifact :: "artifact list \<Rightarrow> string \<Rightarrow> error + artifact" where
  "findOutputArtifact artifacts n =
     (case find (\<lambda>artifact. name artifact = n) artifacts of
        None \<Rightarrow> Inl (Error (notFoundMessage n))
      | Some ret \<Rightarrow> Inr ret)"

text \<open>
  The bounds and the configuration both constructors hand to the base class.
\<close>

definition codeBuildBounds :: bounds where
  "codeBuildBounds = \<lparr>minInputs = 1, maxInputs = 5, minOutputs = 0, maxOutputs = 5\<rparr>"

definition codeBuildConfiguration :: "props \<Rightarrow> (string \<rightharpoonup> string)" where
  "codeBuildConfiguration p = [''ProjectName'' \<mapsto> projectName (project p)]"

text \<open>
  The constructor of \<^verbatim>\<open>PipelineBuildAction\<close>: the base constructor, then the
  permissions with \<^verbatim>\<open>needsPipelineBucketWrite = true\<close>, then the additional artifacts.
\<close>

definition PipelineBuildAction :: "string \<Rightarrow> props \<Rightarrow> world \<Rightarrow> outcome" where
  "PipelineBuildAction nm p w =
     (let s = BuildAction nm codeBuildBounds (codeBuildConfiguration p) p w;
          s' = (fst s, setCodeBuildNeededPermissions (stage p) (project p) True (snd s))
      in handleAdditionalInputOutputArtifacts p addInputArtifact addOutputArtifact s')"

text \<open>
  The constructor of \<^verbatim>\<open>PipelineTestAction\<close>: the same sequence, with
  \<^verbatim>\<open>needsPipelineBucketWrite = !!props.outputArtifactName\<close>.
\<close>

definition PipelineTestAction :: "string \<Rightarrow> props \<Rightarrow> world \<Rightarrow> outcome" where
  "PipelineTestAction nm p w =
     (let s = TestAction nm codeBuildBounds (codeBuildConfiguration p) p w;
          s' = (fst s, setCodeBuildNeededPermissions (stage p) (project p)
                         (truthy (outputArtifactName p)) (snd s))
      in handleAdditionalInputOutputArtifacts p addInputArtifact addOutputArtifact s')"

text \<open>
  Modelled from the spec: construction as the specification describes it, the
  constructor followed by the bounds check of the base class (the check itself is not
  in src). A constructor that raised is not validated.
\<close>

definition validated :: "outcome \<Rightarrow> outcome" where
  "validated r = (case r of Raised e s \<Rightarrow> Raised e s | Done s \<Rightarrow> validate s)"

definition newPipelineBuildAction :: "string \<Rightarrow> props \<Rightarrow> world \<Rightarrow> outcome" where
  "newPipelineBuildAction nm p w = validated (PipelineBuildAction nm p w)"

definition newPipelineTestAction :: "string \<Rightarrow> props \<Rightarrow> world \<Rightarrow> outcome" where
  "newPipelineTestAction nm p w = validated (PipelineTestAction nm p w)"

text \<open>
  \<^verbatim>\<open>additionalOutputArtifacts()\<close> of the build action is \<^verbatim>\<open>_outputArtifacts.slice(1)\<close>;
  of the test action it is the whole list when \<^verbatim>\<open>outputArtifact\<close> is undefined and
  \<^verbatim>\<open>slice(1)\<close> otherwise. \<^verbatim>\<open>additionalOutputArtifact(name)\<close> looks the name up in that
  list.
\<close>

definition build_additionalOutputArtifacts :: "action \<Rightarrow> artifact list" where
  "build_additionalOutputArtifacts a = drop 1 (outputArtifacts a)"


definition test_additionalOutputArtifacts :: "action \<Rightarrow> artifact list" where
  "test_additionalOutputArtifacts a =
     (if outputArtifact a = None then outputArtifacts a else drop 1 (outputArtifacts a))"

definition test_additionalOutputArtifact :: "action \<Rightarrow> string \<Rightarrow> error + artifact" where
  "test_additionalOutputArtifact a n = findOutputArtifact (test_additionalOutputArtifacts a) n"

section \<open>Values the theorems are stated with\<close>

text \<open>
  The statement the specification expects on the pipeline role: the three control
  actions of CodeBuild, on the project's ARN and nothing else.
\<close>

definition controlPlaneStatement :: "project \<Rightarrow> policy_statement" where
  "controlPlaneStatement prj =
     \<lparr>resources = [projectArn prj],
      actions = [''codebuild:BatchGetBuilds'', ''codebuild:StartBuild'',
                 ''codebuild:StopBuild'']\<rparr>"

text \<open>
  Concrete inputs for the closed theorems: a stage, a project, a world in which no
  role has a policy statement yet, and three property sets. The first declares six
  additional inputs (scenario 4 of the specification), the second is a test action
  with no primary output and one additional output, the third a build action with a
  primary output and two additional ones (scenario 3).
\<close>

definition exampleStage :: stage where
  "exampleStage =
     \<lparr>pipelineRole = ''PipelineRole'',
      findInputArtifact = Artifact ''Source'' ''SourceOutput'',
      generateOutputArtifactName = ''Artifact_Build''\<rparr>"

definition exampleProject :: project where
  "exampleProject =
     \<lparr>projectName = ''MyProject'',
      projectArn = ''arn:aws:codebuild:us-east-1:123456789012:project/MyProject'',
      projectRole = ''ProjectRole''\<rparr>"

definition emptyWorld :: world where
  "emptyWorld = \<lparr>rolePolicy = (\<lambda>r. []), bucketGrants = [], calls = []\<rparr>"

definition sixAdditionalInputs :: props where
  "sixAdditionalInputs =
     \<lparr>stage = exampleStage, project = exampleProject,
      inputArtifact = None, outputArtifactName = None,
      additionalInputArtifacts =
        Some [Artifact ''Source'' ''a1'', Artifact ''Source'' ''a2'', Artifact ''Source'' ''a3'',
              Artifact ''Source'' ''a4'', Artifact ''Source'' ''a5'', Artifact ''Source'' ''a6''],
      additionalOutputArtifactNames = None\<rparr>"

definition onlyAdditionalOutput :: props where
  "onlyAdditionalOutput =
     \<lparr>stage = exampleStage, project = exampleProject,
      inputArtifact = None, outputArtifactName = None,
      additionalInputArtifacts = None,
      additionalOutputArtifactNames = Some [''reports'']\<rparr>"

definition builtReportsLogs :: props where
  "builtReportsLogs =
     \<lparr>stage = exampleStage, project = exampleProject,
      inputArtifact = Some (Artifact ''Source'' ''primary''),
      outputArtifactName = Some ''built'',
      additionalInputArtifacts = Some [Artifact ''Source'' ''add1'', Artifact ''Source'' ''add2''],
      additionalOutputArtifactNames = Some [''reports'', ''logs'']\<rparr>"

section \<open>What a constructor leaves behind\<close>

lemma world_of_simps:
  "world_of (Done s) = snd s" "world_of (Raised e s) = snd s"
  by (simp_all add: world_of_def)

lemma action_of_simps:
  "action_of (Done s) = fst s" "action_of (Raised e s) = fst s"
  by (simp_all add: action_of_def)

lemma fold_addInputArtifact:
  "fold addInputArtifact xs s =
     ((fst s)\<lparr>inputArtifacts := inputArtifacts (fst s) @ xs\<rparr>,
      (snd s)\<lparr>calls := calls (snd s) @ map AddInputArtifact xs\<rparr>)"
  by (induction xs arbitrary: s) (simp_all add: addInputArtifact_def)

lemma fold_addOutputArtifact:
  "fold addOutputArtifact ns s =
     ((fst s)\<lparr>outputArtifacts :=
         outputArtifacts (fst s) @ map (Artifact (actionName (fst s))) ns\<rparr>,
      (snd s)\<lparr>calls := calls (snd s) @ map AddOutputArtifact ns\<rparr>)"
  by (induction ns arbitrary: s) (simp_all add: addOutputArtifact_def)

lemma setCodeBuildNeededPermissions_eq:
  "setCodeBuildNeededPermissions stg prj nw w =
     w\<lparr>rolePolicy := (rolePolicy w)(pipelineRole stg :=
            rolePolicy w (pipelineRole stg) @ [controlPlaneStatement prj]),
       bucketGrants := bucketGrants w @ [(projectRole prj, if nw then ReadWrite else ReadOnly)],
       calls := calls w @ [AddToPolicy (pipelineRole stg) (controlPlaneStatement prj),
                           if nw then GrantBucketReadWrite (projectRole prj)
                           else GrantBucketRead (projectRole prj)]\<rparr>"
  by (simp add: setCodeBuildNeededPermissions_def addToPolicy_def grantBucketReadWrite_def
      grantBucketRead_def controlPlaneStatement_def PolicyStatement_def addResource_def
      addActions_def)

lemma PipelineBuildAction_eq:
  "PipelineBuildAction nm p w =
     Done (\<lparr>actionName = nm, artifactBounds = codeBuildBounds,
            configuration =
              (if orEmpty (additionalInputArtifacts p) = [] then codeBuildConfiguration p
               else (codeBuildConfiguration p)(''PrimarySource'' \<mapsto> name (primaryInput p))),
            inputArtifacts = primaryInput p # orEmpty (additionalInputArtifacts p),
            outputArtifacts = Artifact nm (primaryOutputName p)
               # map (Artifact nm) (orEmpty (additionalOutputArtifactNames p)),
            outputArtifact = Some (Artifact nm (primaryOutputName p))\<rparr>,
           w\<lparr>rolePolicy := (rolePolicy w)(pipelineRole (stage p) :=
                  rolePolicy w (pipelineRole (stage p)) @ [controlPlaneStatement (project p)]),
             bucketGrants := bucketGrants w @ [(projectRole (project p), ReadWrite)],
             calls := calls w @
               [AddInputArtifact (primaryInput p), AddOutputArtifact (primaryOutputName p),
                AddToPolicy (pipelineRole (stage p)) (controlPlaneStatement (project p)),
                GrantBucketReadWrite (projectRole (project p))]
               @ map AddInputArtifact (orEmpty (additionalInputArtifacts p))
               @ map AddOutputArtifact (orEmpty (additionalOutputArtifactNames p))\<rparr>)"
  by (simp add: PipelineBuildAction_def BuildAction_def Action_def
      handleAdditionalInputOutputArtifacts_def setCodeBuildNeededPermissions_eq
      fold_addInputArtifact fold_addOutputArtifact addInputArtifact_def addOutputArtifact_def
      Let_def)

lemma PipelineTestAction_eq:
  "PipelineTestAction nm p w =
     Done (\<lparr>actionName = nm, artifactBounds = codeBuildBounds,
            configuration =
              (if orEmpty (additionalInputArtifacts p) = [] then codeBuildConfiguration p
               else (codeBuildConfiguration p)(''PrimarySource'' \<mapsto> name (primaryInput p))),
            inputArtifacts = primaryInput p # orEmpty (additionalInputArtifacts p),
            outputArtifacts =
               (case outputArtifactName p of None \<Rightarrow> [] | Some n \<Rightarrow> [Artifact nm n])
               @ map (Artifact nm) (orEmpty (additionalOutputArtifactNames p)),
            outputArtifact = map_option (Artifact nm) (outputArtifactName p)\<rparr>,
           w\<lparr>rolePolicy := (rolePolicy w)(pipelineRole (stage p) :=
                  rolePolicy w (pipelineRole (stage p)) @ [controlPlaneStatement (project p)]),
             bucketGrants := bucketGrants w @
               [(projectRole (project p),
                 if truthy (outputArtifactName p) then ReadWrite else ReadOnly)],
             calls := calls w @
               [AddInputArtifact (primaryInput p)]
               @ (case outputArtifactName p of None \<Rightarrow> [] | Some n \<Rightarrow> [AddOutputArtifact n])
               @ [AddToPolicy (pipelineRole (stage p)) (controlPlaneStatement (project p)),
                  if truthy (outputArtifactName p) then GrantBucketReadWrite (projectRole (project p))
                  else GrantBucketRead (projectRole (project p))]
               @ map AddInputArtifact (orEmpty (additionalInputArtifacts p))
               @ map AddOutputArtifact (orEmpty (additionalOutputArtifactNames p))\<rparr>)"
  by (cases "outputArtifactName p")
     (simp_all add: PipelineTestAction_def TestAction_def Action_def
      handleAdditionalInputOutputArtifacts_def setCodeBuildNeededPermissions_eq
      fold_addInputArtifact fold_addOutputArtifact addInputArtifact_def addOutputArtifact_def
      Let_def)

lemma validated_Done:
  "validated (Done s) = validate s"
  by (simp add: validated_def)

lemma world_of_validated:
  "world_of (validated r) = world_of r"
  by (cases r) (simp_all add: validated_def validate_def world_of_def Let_def)

lemma action_of_validated:
  "action_of (validated r) = action_of r"
  by (cases r) (simp_all add: validated_def validate_def action_of_def Let_def)

section \<open>Artifact lookup\<close>

lemma find_name_None:
  "(find (\<lambda>artifact. name artifact = n) xs = None) = (n \<notin> name ` set xs)"
  by (induction xs) auto

lemma find_skips_prefix:
  "\<forall>b \<in> set pre. \<not> P b \<Longrightarrow> P a \<Longrightarrow> find P (pre @ a # post) = Some a"
  by (induction pre) auto

text \<open>
  C5. For every artifact list and every name, \<^verbatim>\<open>findOutputArtifact\<close> returns an artifact
  of the list whose name is exactly the given name when there is one (the first such),
  and for a name absent from the list, in particular for every name on the empty list,
  it raises the error whose message is \<^verbatim>\<open>Could not find output artifact with name\<close>
  followed by the missing name between single quotes. Nothing else is tried.
\<close>

theorem findOutputArtifact_exact:
  "(n \<in> name ` set artifacts \<longrightarrow>
      (\<exists>pre a post. findOutputArtifact artifacts n = Inr a \<and> artifacts = pre @ a # post
         \<and> name a = n \<and> n \<notin> name ` set pre))
   \<and> (n \<notin> name ` set artifacts \<longrightarrow>
      findOutputArtifact artifacts n =
        Inl (Error (''Could not find output artifact with name '' @ [CHR 0x27] @ n @ [CHR 0x27])))
   \<and> findOutputArtifact [] n =
        Inl (Error (''Could not find output artifact with name '' @ [CHR 0x27] @ n @ [CHR 0x27]))"
proof (intro conjI impI)
  assume "n \<in> name ` set artifacts"
  then obtain pre a post where
    split: "artifacts = pre @ a # post" "name a = n" "\<forall>b \<in> set pre. name b \<noteq> n"
    using split_list_first_prop [of artifacts "\<lambda>b. name b = n"] by auto
  have "find (\<lambda>artifact. name artifact = n) artifacts = Some a"
    using split find_skips_prefix [of pre "\<lambda>b. name b = n" a post] by simp
  moreover have "n \<notin> name ` set pre"
    using split by auto
  ultimately have "findOutputArtifact artifacts n = Inr a \<and> artifacts = pre @ a # post
      \<and> name a = n \<and> n \<notin> name ` set pre"
    using split unfolding findOutputArtifact_def by simp
  then show "\<exists>pre a post. findOutputArtifact artifacts n = Inr a
      \<and> artifacts = pre @ a # post \<and> name a = n \<and> n \<notin> name ` set pre"
    by blast
next
  assume "n \<notin> name ` set artifacts"
  then have "find (\<lambda>artifact. name artifact = n) artifacts = None"
    using find_name_None [of n artifacts] by simp
  then show "findOutputArtifact artifacts n =
      Inl (Error (''Could not find output artifact with name '' @ [CHR 0x27] @ n @ [CHR 0x27]))"
    unfolding findOutputArtifact_def notFoundMessage_def by simp
next
  show "findOutputArtifact [] n =
      Inl (Error (''Could not find output artifact with name '' @ [CHR 0x27] @ n @ [CHR 0x27]))"
    unfolding findOutputArtifact_def notFoundMessage_def by simp
qed

theorem findOutputArtifact_exact_witness:
  "''reports'' \<in> name ` set [Artifact ''Build'' ''built'', Artifact ''Build'' ''reports'']
   \<and> findOutputArtifact [Artifact ''Build'' ''built'', Artifact ''Build'' ''reports'']
         ''reports'' = Inr (Artifact ''Build'' ''reports'')
   \<and> ''missing'' \<notin> name ` set [Artifact ''Build'' ''built'', Artifact ''Build'' ''reports'']
   \<and> findOutputArtifact [Artifact ''Build'' ''built'', Artifact ''Build'' ''reports'']
         ''missing'' =
       Inl (Error (''Could not find output artifact with name ''
                   @ [CHR 0x27] @ ''missing'' @ [CHR 0x27]))
   \<and> findOutputArtifact [] ''missing'' =
       Inl (Error (''Could not find output artifact with name ''
                   @ [CHR 0x27] @ ''missing'' @ [CHR 0x27]))"
  using findOutputArtifact_exact
          [of "''reports''" "[Artifact ''Build'' ''built'', Artifact ''Build'' ''reports'']"]
        findOutputArtifact_exact
          [of "''missing''" "[Artifact ''Build'' ''built'', Artifact ''Build'' ''reports'']"]
  by (simp add: findOutputArtifact_def)

section \<open>Order of binding and permission grants\<close>

text \<open>
  C1, as the code has it. Both constructors bind the primary input and the primary
  output first (the base constructor), then issue the two permission grants (the
  statement on the pipeline role, then the bucket grant to the project role), and only
  then append the additional input artifacts and the additional output artifacts, in
  declaration order; the bounds are checked after that. The log of calls is the same
  whether or not the bounds check fails, so a bounds violation finds both grants
  already made.
\<close>

theorem grants_before_additional_artifacts:
  "calls (world_of (newPipelineBuildAction nm p w)) =
     calls w
     @ [AddInputArtifact (primaryInput p), AddOutputArtifact (primaryOutputName p)]
     @ [AddToPolicy (pipelineRole (stage p)) (controlPlaneStatement (project p)),
        GrantBucketReadWrite (projectRole (project p))]
     @ map AddInputArtifact (orEmpty (additionalInputArtifacts p))
     @ map AddOutputArtifact (orEmpty (additionalOutputArtifactNames p))
   \<and> calls (world_of (newPipelineTestAction nm p w)) =
     calls w
     @ [AddInputArtifact (primaryInput p)]
     @ (case outputArtifactName p of None \<Rightarrow> [] | Some n \<Rightarrow> [AddOutputArtifact n])
     @ [AddToPolicy (pipelineRole (stage p)) (controlPlaneStatement (project p)),
        if truthy (outputArtifactName p) then GrantBucketReadWrite (projectRole (project p))
        else GrantBucketRead (projectRole (project p))]
     @ map AddInputArtifact (orEmpty (additionalInputArtifacts p))
     @ map AddOutputArtifact (orEmpty (additionalOutputArtifactNames p))
   \<and> bucketGrants (world_of (newPipelineBuildAction nm p w)) =
     bucketGrants w @ [(projectRole (project p), ReadWrite)]
   \<and> bucketGrants (world_of (newPipelineTestAction nm p w)) =
     bucketGrants w @ [(projectRole (project p),
                        if truthy (outputArtifactName p) then ReadWrite else ReadOnly)]"
  by (simp add: newPipelineBuildAction_def newPipelineTestAction_def world_of_validated
      PipelineBuildAction_eq PipelineTestAction_eq world_of_simps)

text \<open>
  Scenario 4 of the specification: six additional inputs against the bounds
  1 to 5 inputs, 0 to 5 outputs. Construction raises the bounds violation, and by then
  the statement is on the pipeline role, the project role has its bucket grant, and
  both calls stand in the log before the first additional input is appended.
\<close>

theorem six_inputs_grants_already_made:
  "raised (newPipelineBuildAction ''Build'' sixAdditionalInputs emptyWorld) = Some BoundsViolation
   \<and> bucketGrants (world_of (newPipelineBuildAction ''Build'' sixAdditionalInputs emptyWorld))
       = [(''ProjectRole'', ReadWrite)]
   \<and> rolePolicy (world_of (newPipelineBuildAction ''Build'' sixAdditionalInputs emptyWorld))
         ''PipelineRole'' = [controlPlaneStatement exampleProject]
   \<and> calls (world_of (newPipelineBuildAction ''Build'' sixAdditionalInputs emptyWorld)) =
       [AddInputArtifact (Artifact ''Source'' ''SourceOutput''),
        AddOutputArtifact ''Artifact_Build'',
        AddToPolicy ''PipelineRole'' (controlPlaneStatement exampleProject),
        GrantBucketReadWrite ''ProjectRole'',
        AddInputArtifact (Artifact ''Source'' ''a1''),
        AddInputArtifact (Artifact ''Source'' ''a2''),
        AddInputArtifact (Artifact ''Source'' ''a3''),
        AddInputArtifact (Artifact ''Source'' ''a4''),
        AddInputArtifact (Artifact ''Source'' ''a5''),
        AddInputArtifact (Artifact ''Source'' ''a6'')]"
  by (simp add: newPipelineBuildAction_def world_of_validated PipelineBuildAction_eq
      validated_def validate_def
      world_of_simps sixAdditionalInputs_def emptyWorld_def exampleStage_def exampleProject_def
      primaryInput_def primaryOutputName_def codeBuildBounds_def Let_def)

section \<open>Which bucket grant the project role gets\<close>

text \<open>
  C2 at the input where the code departs from it: a test action with no primary
  output name and the additional output name \<^verbatim>\<open>reports\<close>. Construction succeeds, the
  action's output list is the one artifact \<^verbatim>\<open>reports\<close>, and the project role has the
  read grant only.
\<close>

theorem test_action_additional_output_read_only:
  "raised (newPipelineTestAction ''Test'' onlyAdditionalOutput emptyWorld) = None
   \<and> outputArtifacts (action_of (newPipelineTestAction ''Test'' onlyAdditionalOutput emptyWorld))
       = [Artifact ''Test'' ''reports'']
   \<and> bucketGrants (world_of (newPipelineTestAction ''Test'' onlyAdditionalOutput emptyWorld))
       = [(''ProjectRole'', ReadOnly)]"
  by (simp add: newPipelineTestAction_def world_of_validated action_of_validated
      PipelineTestAction_eq validated_def validate_def
      world_of_simps action_of_simps onlyAdditionalOutput_def emptyWorld_def exampleStage_def
      exampleProject_def primaryInput_def codeBuildBounds_def Let_def)

section \<open>The primary source\<close>

text \<open>
  C3. For every construction of a build or a test action: the constructor does not
  raise; when a list of additional input artifacts is supplied, the input list is the
  primary input followed by that list in declaration order, and without one it is the
  primary input alone; the configuration has a \<^verbatim>\<open>PrimarySource\<close> entry exactly when
  a non-empty list of additional inputs is supplied, and the entry is the name of the
  input artifact at index 0 of the resolved input list. The \<^verbatim>\<open>ProjectName\<close> entry stays
  as it was. Scenario 2 of the specification (a primary input and two additional
  ones) gives the inputs \<^verbatim>\<open>primary, add1, add2\<close> and \<^verbatim>\<open>PrimarySource = primary\<close>, for the
  build and for the test action; an action with the default input and no additional
  input has that one input and no \<^verbatim>\<open>PrimarySource\<close>.
\<close>

theorem PrimarySource_iff_additional_inputs:
  "succeeded (PipelineBuildAction nm p w)
   \<and> inputArtifacts (action_of (PipelineBuildAction nm p w)) =
       primaryInput p # (case additionalInputArtifacts p of None \<Rightarrow> [] | Some xs \<Rightarrow> xs)
   \<and> configuration (action_of (PipelineBuildAction nm p w)) ''PrimarySource'' =
       (case additionalInputArtifacts p of
          None \<Rightarrow> None
        | Some xs \<Rightarrow>
            if xs = [] then None
            else Some (name (inputArtifacts (action_of (PipelineBuildAction nm p w)) ! 0)))
   \<and> configuration (action_of (PipelineBuildAction nm p w)) ''ProjectName'' =
       Some (projectName (project p))
   \<and> succeeded (PipelineTestAction nm p w)
   \<and> inputArtifacts (action_of (PipelineTestAction nm p w)) =
       primaryInput p # (case additionalInputArtifacts p of None \<Rightarrow> [] | Some xs \<Rightarrow> xs)
   \<and> configuration (action_of (PipelineTestAction nm p w)) ''PrimarySource'' =
       (case additionalInputArtifacts p of
          None \<Rightarrow> None
        | Some xs \<Rightarrow>
            if xs = [] then None
            else Some (name (inputArtifacts (action_of (PipelineTestAction nm p w)) ! 0)))
   \<and> configuration (action_of (PipelineTestAction nm p w)) ''ProjectName'' =
       Some (projectName (project p))
   \<and> inputArtifacts (action_of (PipelineBuildAction ''Build'' builtReportsLogs emptyWorld)) =
       [Artifact ''Source'' ''primary'', Artifact ''Source'' ''add1'', Artifact ''Source'' ''add2'']
   \<and> configuration (action_of (PipelineBuildAction ''Build'' builtReportsLogs emptyWorld))
       ''PrimarySource'' = Some ''primary''
   \<and> inputArtifacts (action_of (PipelineTestAction ''Test'' builtReportsLogs emptyWorld)) =
       [Artifact ''Source'' ''primary'', Artifact ''Source'' ''add1'', Artifact ''Source'' ''add2'']
   \<and> configuration (action_of (PipelineTestAction ''Test'' builtReportsLogs emptyWorld))
       ''PrimarySource'' = Some ''primary''
   \<and> inputArtifacts (action_of (PipelineBuildAction ''Build'' onlyAdditionalOutput emptyWorld)) =
       [Artifact ''Source'' ''SourceOutput'']
   \<and> configuration (action_of (PipelineBuildAction ''Build'' onlyAdditionalOutput emptyWorld))
       ''PrimarySource'' = None
   \<and> configuration (action_of (PipelineBuildAction ''Build''
        (onlyAdditionalOutput\<lparr>additionalInputArtifacts := Some []\<rparr>) emptyWorld))
       ''PrimarySource'' = None"
proof -
  have general:
    "succeeded (PipelineBuildAction nm p w)"
    "inputArtifacts (action_of (PipelineBuildAction nm p w)) =
       primaryInput p # (case additionalInputArtifacts p of None \<Rightarrow> [] | Some xs \<Rightarrow> xs)"
    "configuration (action_of (PipelineBuildAction nm p w)) ''PrimarySource'' =
       (case additionalInputArtifacts p of
          None \<Rightarrow> None
        | Some xs \<Rightarrow>
            if xs = [] then None
            else Some (name (inputArtifacts (action_of (PipelineBuildAction nm p w)) ! 0)))"
    "configuration (action_of (PipelineBuildAction nm p w)) ''ProjectName'' =
       Some (projectName (project p))"
    "succeeded (PipelineTestAction nm p w)"
    "inputArtifacts (action_of (PipelineTestAction nm p w)) =
       primaryInput p # (case additionalInputArtifacts p of None \<Rightarrow> [] | Some xs \<Rightarrow> xs)"
    "configuration (action_of (PipelineTestAction nm p w)) ''PrimarySource'' =
       (case additionalInputArtifacts p of
          None \<Rightarrow> None
        | Some xs \<Rightarrow>
            if xs = [] then None
            else Some (name (inputArtifacts (action_of (PipelineTestAction nm p w)) ! 0)))"
    "configuration (action_of (PipelineTestAction nm p w)) ''ProjectName'' =
       Some (projectName (project p))"
    by (simp_all add: PipelineBuildAction_eq PipelineTestAction_eq succeeded_def
        action_of_simps codeBuildConfiguration_def split: option.splits)
  have scenario:
    "inputArtifacts (action_of (PipelineBuildAction ''Build'' builtReportsLogs emptyWorld)) =
       [Artifact ''Source'' ''primary'', Artifact ''Source'' ''add1'', Artifact ''Source'' ''add2'']"
    "configuration (action_of (PipelineBuildAction ''Build'' builtReportsLogs emptyWorld))
       ''PrimarySource'' = Some ''primary''"
    "inputArtifacts (action_of (PipelineTestAction ''Test'' builtReportsLogs emptyWorld)) =
       [Artifact ''Source'' ''primary'', Artifact ''Source'' ''add1'', Artifact ''Source'' ''add2'']"
    "configuration (action_of (PipelineTestAction ''Test'' builtReportsLogs emptyWorld))
       ''PrimarySource'' = Some ''primary''"
    by (simp_all add: PipelineBuildAction_def PipelineTestAction_def BuildAction_def
        TestAction_def Action_def handleAdditionalInputOutputArtifacts_def
        addInputArtifact_def addOutputArtifact_def action_of_simps builtReportsLogs_def
        primaryInput_def Let_def)
  have single:
    "inputArtifacts (action_of (PipelineBuildAction ''Build'' onlyAdditionalOutput emptyWorld)) =
       [Artifact ''Source'' ''SourceOutput'']"
    "configuration (action_of (PipelineBuildAction ''Build'' onlyAdditionalOutput emptyWorld))
       ''PrimarySource'' = None"
    "configuration (action_of (PipelineBuildAction ''Build''
        (onlyAdditionalOutput\<lparr>additionalInputArtifacts := Some []\<rparr>) emptyWorld))
       ''PrimarySource'' = None"
    by (simp_all add: PipelineBuildAction_def BuildAction_def Action_def
        handleAdditionalInputOutputArtifacts_def addInputArtifact_def addOutputArtifact_def
        action_of_simps onlyAdditionalOutput_def exampleStage_def primaryInput_def
        codeBuildConfiguration_def Let_def)
  from general scenario single show ?thesis
    by (intro conjI)
qed

section \<open>Bounds\<close>

text \<open>
  C4. For all bounds and all artifact lists, the bounds check succeeds exactly when
  the input count lies between \<^verbatim>\<open>minInputs\<close> and \<^verbatim>\<open>maxInputs\<close> and the output count
  between \<^verbatim>\<open>minOutputs\<close> and \<^verbatim>\<open>maxOutputs\<close>, and raises the bounds violation
  otherwise. With the bounds of the CodeBuild actions, construction of a build action
  and of a test action succeeds exactly when the resolved counts (the primary input
  plus the additional inputs; the primary output, if any, plus the additional outputs)
  are within 1 to 5 and 0 to 5, and raises the bounds violation otherwise.
\<close>

theorem construction_succeeds_iff_within_bounds:
  "raised (validate (a, w)) =
     (if minInputs (artifactBounds a) \<le> length (inputArtifacts a)
         \<and> length (inputArtifacts a) \<le> maxInputs (artifactBounds a)
         \<and> minOutputs (artifactBounds a) \<le> length (outputArtifacts a)
         \<and> length (outputArtifacts a) \<le> maxOutputs (artifactBounds a)
      then None else Some BoundsViolation)
   \<and> raised (newPipelineBuildAction nm p w) =
     (if 1 \<le> length (inputArtifacts (action_of (newPipelineBuildAction nm p w)))
         \<and> length (inputArtifacts (action_of (newPipelineBuildAction nm p w))) \<le> 5
         \<and> 0 \<le> length (outputArtifacts (action_of (newPipelineBuildAction nm p w)))
         \<and> length (outputArtifacts (action_of (newPipelineBuildAction nm p w))) \<le> 5
      then None else Some BoundsViolation)
   \<and> raised (newPipelineTestAction nm p w) =
     (if 1 \<le> length (inputArtifacts (action_of (newPipelineTestAction nm p w)))
         \<and> length (inputArtifacts (action_of (newPipelineTestAction nm p w))) \<le> 5
         \<and> 0 \<le> length (outputArtifacts (action_of (newPipelineTestAction nm p w)))
         \<and> length (outputArtifacts (action_of (newPipelineTestAction nm p w))) \<le> 5
      then None else Some BoundsViolation)
   \<and> length (inputArtifacts (action_of (newPipelineBuildAction nm p w))) =
       1 + length (orEmpty (additionalInputArtifacts p))
   \<and> length (outputArtifacts (action_of (newPipelineBuildAction nm p w))) =
       1 + length (orEmpty (additionalOutputArtifactNames p))
   \<and> length (inputArtifacts (action_of (newPipelineTestAction nm p w))) =
       1 + length (orEmpty (additionalInputArtifacts p))
   \<and> length (outputArtifacts (action_of (newPipelineTestAction nm p w))) =
       (case outputArtifactName p of None \<Rightarrow> 0 | Some n \<Rightarrow> 1)
       + length (orEmpty (additionalOutputArtifactNames p))"
proof -
  have general: "raised (validate (a, w)) =
     (if minInputs (artifactBounds a) \<le> length (inputArtifacts a)
         \<and> length (inputArtifacts a) \<le> maxInputs (artifactBounds a)
         \<and> minOutputs (artifactBounds a) \<le> length (outputArtifacts a)
         \<and> length (outputArtifacts a) \<le> maxOutputs (artifactBounds a)
      then None else Some BoundsViolation)"
    by (simp add: validate_def Let_def)
  have build: "raised (newPipelineBuildAction nm p w) =
     (if 1 \<le> length (inputArtifacts (action_of (newPipelineBuildAction nm p w)))
         \<and> length (inputArtifacts (action_of (newPipelineBuildAction nm p w))) \<le> 5
         \<and> 0 \<le> length (outputArtifacts (action_of (newPipelineBuildAction nm p w)))
         \<and> length (outputArtifacts (action_of (newPipelineBuildAction nm p w))) \<le> 5
      then None else Some BoundsViolation)"
    by (simp add: newPipelineBuildAction_def action_of_validated PipelineBuildAction_eq
        validated_Done validate_def action_of_simps codeBuildBounds_def Let_def)
  have test: "raised (newPipelineTestAction nm p w) =
     (if 1 \<le> length (inputArtifacts (action_of (newPipelineTestAction nm p w)))
         \<and> length (inputArtifacts (action_of (newPipelineTestAction nm p w))) \<le> 5
         \<and> 0 \<le> length (outputArtifacts (action_of (newPipelineTestAction nm p w)))
         \<and> length (outputArtifacts (action_of (newPipelineTestAction nm p w))) \<le> 5
      then None else Some BoundsViolation)"
    by (simp add: newPipelineTestAction_def action_of_validated PipelineTestAction_eq
        validated_Done validate_def action_of_simps codeBuildBounds_def Let_def)
  have counts:
    "length (inputArtifacts (action_of (newPipelineBuildAction nm p w))) =
       1 + length (orEmpty (additionalInputArtifacts p))"
    "length (outputArtifacts (action_of (newPipelineBuildAction nm p w))) =
       1 + length (orEmpty (additionalOutputArtifactNames p))"
    "length (inputArtifacts (action_of (newPipelineTestAction nm p w))) =
       1 + length (orEmpty (additionalInputArtifacts p))"
    "length (outputArtifacts (action_of (newPipelineTestAction nm p w))) =
       (case outputArtifactName p of None \<Rightarrow> 0 | Some n \<Rightarrow> 1)
       + length (orEmpty (additionalOutputArtifactNames p))"
    by (simp_all add: newPipelineBuildAction_def newPipelineTestAction_def action_of_validated
        PipelineBuildAction_eq PipelineTestAction_eq action_of_simps split: option.splits)
  from general build test counts show ?thesis
    by (intro conjI)
qed

section \<open>Additional output artifacts\<close>

text \<open>
  C6. For a build action, \<^verbatim>\<open>additionalOutputArtifacts()\<close> is the output list without its
  index 0, which is the primary output; what remains are the artifacts of the
  additional output names. For a test action it is the whole output list when no
  primary output name was declared at construction and the list without its index 0
  when one was; in both cases these are the artifacts of the additional output names.
  The choice follows the declaration, not the length of the list: of two test actions
  whose output lists both have one entry, the one that declared \<^verbatim>\<open>reports\<close> as its
  primary output has no additional output, and the one that declared it as an
  additional output has that one.
\<close>

theorem additionalOutputArtifacts_slicing:
  "build_additionalOutputArtifacts (action_of (PipelineBuildAction nm p w)) =
     drop 1 (outputArtifacts (action_of (PipelineBuildAction nm p w)))
   \<and> outputArtifacts (action_of (PipelineBuildAction nm p w)) ! 0 =
     Artifact nm (primaryOutputName p)
   \<and> build_additionalOutputArtifacts (action_of (PipelineBuildAction nm p w)) =
     map (Artifact nm) (orEmpty (additionalOutputArtifactNames p))
   \<and> test_additionalOutputArtifacts (action_of (PipelineTestAction nm p w)) =
     (if outputArtifactName p = None
      then outputArtifacts (action_of (PipelineTestAction nm p w))
      else drop 1 (outputArtifacts (action_of (PipelineTestAction nm p w))))
   \<and> test_additionalOutputArtifacts (action_of (PipelineTestAction nm p w)) =
     map (Artifact nm) (orEmpty (additionalOutputArtifactNames p))
   \<and> length (outputArtifacts (action_of (PipelineTestAction ''Test'' onlyAdditionalOutput emptyWorld)))
       = 1
   \<and> test_additionalOutputArtifacts
       (action_of (PipelineTestAction ''Test'' onlyAdditionalOutput emptyWorld)) =
       [Artifact ''Test'' ''reports'']
   \<and> length (outputArtifacts (action_of (PipelineTestAction ''Test''
        (onlyAdditionalOutput\<lparr>outputArtifactName := Some ''reports'',
           additionalOutputArtifactNames := None\<rparr>) emptyWorld))) = 1
   \<and> test_additionalOutputArtifacts (action_of (PipelineTestAction ''Test''
        (onlyAdditionalOutput\<lparr>outputArtifactName := Some ''reports'',
           additionalOutputArtifactNames := None\<rparr>) emptyWorld)) = []"
proof -
  have build:
    "build_additionalOutputArtifacts (action_of (PipelineBuildAction nm p w)) =
       drop 1 (outputArtifacts (action_of (PipelineBuildAction nm p w)))"
    "outputArtifacts (action_of (PipelineBuildAction nm p w)) ! 0 =
       Artifact nm (primaryOutputName p)"
    "build_additionalOutputArtifacts (action_of (PipelineBuildAction nm p w)) =
       map (Artifact nm) (orEmpty (additionalOutputArtifactNames p))"
    by (simp_all add: build_additionalOutputArtifacts_def PipelineBuildAction_eq action_of_simps)
  have test:
    "test_additionalOutputArtifacts (action_of (PipelineTestAction nm p w)) =
       (if outputArtifactName p = None
        then outputArtifacts (action_of (PipelineTestAction nm p w))
        else drop 1 (outputArtifacts (action_of (PipelineTestAction nm p w))))"
    "test_additionalOutputArtifacts (action_of (PipelineTestAction nm p w)) =
       map (Artifact nm) (orEmpty (additionalOutputArtifactNames p))"
    by (simp_all add: test_additionalOutputArtifacts_def PipelineTestAction_eq action_of_simps
        split: option.splits)
  have same_length:
    "length (outputArtifacts (action_of (PipelineTestAction ''Test'' onlyAdditionalOutput emptyWorld)))
       = 1"
    "test_additionalOutputArtifacts
       (action_of (PipelineTestAction ''Test'' onlyAdditionalOutput emptyWorld)) =
       [Artifact ''Test'' ''reports'']"
    "length (outputArtifacts (action_of (PipelineTestAction ''Test''
        (onlyAdditionalOutput\<lparr>outputArtifactName := Some ''reports'',
           additionalOutputArtifactNames := None\<rparr>) emptyWorld))) = 1"
    "test_additionalOutputArtifacts (action_of (PipelineTestAction ''Test''
        (onlyAdditionalOutput\<lparr>outputArtifactName := Some ''reports'',
           additionalOutputArtifactNames := None\<rparr>) emptyWorld)) = []"
    by (simp_all add: test_additionalOutputArtifacts_def PipelineTestAction_eq action_of_simps
        onlyAdditionalOutput_def)
  from build test same_length show ?thesis
    by (intro conjI)
qed

section \<open>The statement on the pipeline role\<close>

text \<open>
  C7. Whatever the value of \<^verbatim>\<open>needsPipelineBucketWrite\<close>,
  \<^verbatim>\<open>setCodeBuildNeededPermissions\<close> changes the role policies in one place only: the
  policy of the pipeline role gets one more statement at its end, whose actions are
  \<^verbatim>\<open>codebuild:BatchGetBuilds\<close>, \<^verbatim>\<open>codebuild:StartBuild\<close> and \<^verbatim>\<open>codebuild:StopBuild\<close> and
  whose only resource is the project's ARN. The same holds for the construction of a
  build action and of a test action, whether or not it ends in a bounds violation.
\<close>

theorem pipeline_role_gets_one_statement:
  "rolePolicy (setCodeBuildNeededPermissions stg prj needsWrite w) =
     (rolePolicy w)(pipelineRole stg := rolePolicy w (pipelineRole stg) @
        [\<lparr>resources = [projectArn prj],
          actions = [''codebuild:BatchGetBuilds'', ''codebuild:StartBuild'',
                     ''codebuild:StopBuild'']\<rparr>])
   \<and> rolePolicy (world_of (newPipelineBuildAction nm p w)) =
     (rolePolicy w)(pipelineRole (stage p) := rolePolicy w (pipelineRole (stage p)) @
        [\<lparr>resources = [projectArn (project p)],
          actions = [''codebuild:BatchGetBuilds'', ''codebuild:StartBuild'',
                     ''codebuild:StopBuild'']\<rparr>])
   \<and> rolePolicy (world_of (newPipelineTestAction nm p w)) =
     (rolePolicy w)(pipelineRole (stage p) := rolePolicy w (pipelineRole (stage p)) @
        [\<lparr>resources = [projectArn (project p)],
          actions = [''codebuild:BatchGetBuilds'', ''codebuild:StartBuild'',
                     ''codebuild:StopBuild'']\<rparr>])"
  by (simp add: setCodeBuildNeededPermissions_eq newPipelineBuildAction_def
      newPipelineTestAction_def world_of_validated PipelineBuildAction_eq PipelineTestAction_eq
      world_of_simps controlPlaneStatement_def)

section \<open>Order of the output list\<close>

text \<open>
  C8. After the construction of a build action the output list is the primary output
  followed by the artifacts of the supplied additional output names in declaration
  order. After the construction of a test action it is the primary output, when a
  primary output name was supplied, followed by the artifacts of the supplied
  additional output names in declaration order. In general
  \<^verbatim>\<open>handleAdditionalInputOutputArtifacts\<close>, when it does not raise, leaves the outputs
  that were there in place and appends the additional ones after them. Scenario 3 of
  the specification (primary output \<^verbatim>\<open>built\<close>, additional outputs \<^verbatim>\<open>reports\<close> and
  \<^verbatim>\<open>logs\<close>) gives the output list \<^verbatim>\<open>built, reports, logs\<close> for the build and for the test
  action; a test action with the additional output \<^verbatim>\<open>reports\<close> alone gives \<^verbatim>\<open>reports\<close>.
\<close>

theorem output_list_order:
  "outputArtifacts (action_of (PipelineBuildAction nm p w)) =
     Artifact nm (primaryOutputName p)
       # map (Artifact nm)
           (case additionalOutputArtifactNames p of None \<Rightarrow> [] | Some ns \<Rightarrow> ns)
   \<and> outputArtifacts (action_of (PipelineTestAction nm p w)) =
     (case outputArtifactName p of None \<Rightarrow> [] | Some n \<Rightarrow> [Artifact nm n])
       @ map (Artifact nm)
           (case additionalOutputArtifactNames p of None \<Rightarrow> [] | Some ns \<Rightarrow> ns)
   \<and> outputArtifacts
       (action_of (handleAdditionalInputOutputArtifacts p addInputArtifact addOutputArtifact s)) =
     (if succeeded (handleAdditionalInputOutputArtifacts p addInputArtifact addOutputArtifact s)
      then outputArtifacts (fst s)
             @ map (Artifact (actionName (fst s)))
                 (case additionalOutputArtifactNames p of None \<Rightarrow> [] | Some ns \<Rightarrow> ns)
      else outputArtifacts (fst s))
   \<and> outputArtifacts (action_of (PipelineBuildAction ''Build'' builtReportsLogs emptyWorld)) =
       [Artifact ''Build'' ''built'', Artifact ''Build'' ''reports'', Artifact ''Build'' ''logs'']
   \<and> outputArtifacts (action_of (PipelineTestAction ''Test'' builtReportsLogs emptyWorld)) =
       [Artifact ''Test'' ''built'', Artifact ''Test'' ''reports'', Artifact ''Test'' ''logs'']
   \<and> outputArtifacts (action_of (PipelineTestAction ''Test'' onlyAdditionalOutput emptyWorld)) =
       [Artifact ''Test'' ''reports'']
   \<and> outputArtifacts (action_of (PipelineBuildAction ''Build'' onlyAdditionalOutput emptyWorld)) =
       [Artifact ''Build'' ''Artifact_Build'', Artifact ''Build'' ''reports'']"
proof -
  have constructors:
    "outputArtifacts (action_of (PipelineBuildAction nm p w)) =
       Artifact nm (primaryOutputName p)
         # map (Artifact nm)
             (case additionalOutputArtifactNames p of None \<Rightarrow> [] | Some ns \<Rightarrow> ns)"
    "outputArtifacts (action_of (PipelineTestAction nm p w)) =
       (case outputArtifactName p of None \<Rightarrow> [] | Some n \<Rightarrow> [Artifact nm n])
         @ map (Artifact nm)
             (case additionalOutputArtifactNames p of None \<Rightarrow> [] | Some ns \<Rightarrow> ns)"
    by (simp_all add: PipelineBuildAction_eq PipelineTestAction_eq action_of_simps
        split: option.splits)
  have helper:
    "outputArtifacts
       (action_of (handleAdditionalInputOutputArtifacts p addInputArtifact addOutputArtifact s)) =
     (if succeeded (handleAdditionalInputOutputArtifacts p addInputArtifact addOutputArtifact s)
      then outputArtifacts (fst s)
             @ map (Artifact (actionName (fst s)))
                 (case additionalOutputArtifactNames p of None \<Rightarrow> [] | Some ns \<Rightarrow> ns)
      else outputArtifacts (fst s))"
    by (cases "inputArtifacts (fst s)")
       (simp_all add: handleAdditionalInputOutputArtifacts_def succeeded_def action_of_simps
        fold_addInputArtifact fold_addOutputArtifact split: option.splits)
  have scenario:
    "outputArtifacts (action_of (PipelineBuildAction ''Build'' builtReportsLogs emptyWorld)) =
       [Artifact ''Build'' ''built'', Artifact ''Build'' ''reports'', Artifact ''Build'' ''logs'']"
    "outputArtifacts (action_of (PipelineTestAction ''Test'' builtReportsLogs emptyWorld)) =
       [Artifact ''Test'' ''built'', Artifact ''Test'' ''reports'', Artifact ''Test'' ''logs'']"
    "outputArtifacts (action_of (PipelineTestAction ''Test'' onlyAdditionalOutput emptyWorld)) =
       [Artifact ''Test'' ''reports'']"
    "outputArtifacts (action_of (PipelineBuildAction ''Build'' onlyAdditionalOutput emptyWorld)) =
       [Artifact ''Build'' ''Artifact_Build'', Artifact ''Build'' ''reports'']"
    by (simp_all add: PipelineBuildAction_def PipelineTestAction_def BuildAction_def
        TestAction_def Action_def handleAdditionalInputOutputArtifacts_def
        addInputArtifact_def addOutputArtifact_def action_of_simps builtReportsLogs_def
        onlyAdditionalOutput_def exampleStage_def primaryOutputName_def Let_def)
  from constructors helper scenario show ?thesis
    by (intro conjI)
qed

section \<open>Reading the first input artifact\<close>

text \<open>
  C9. \<^verbatim>\<open>handleAdditionalInputOutputArtifacts\<close> raises, whatever the two mutators are,
  exactly when additional inputs are declared and the action has no input artifact
  bound: the read of \<^verbatim>\<open>_inputArtifacts[0].name\<close> is then out of bounds, the error is a
  TypeError and nothing has been changed. With additional inputs declared and at least
  one input bound, the call succeeds and \<^verbatim>\<open>PrimarySource\<close> is the name of the input at
  index 0.
\<close>

theorem PrimarySource_needs_a_bound_input:
  "raised (handleAdditionalInputOutputArtifacts p addIn addOut s) =
     (if orEmpty (additionalInputArtifacts p) \<noteq> [] \<and> inputArtifacts (fst s) = []
      then Some TypeError else None)
   \<and> (orEmpty (additionalInputArtifacts p) \<noteq> [] \<and> inputArtifacts (fst s) = [] \<longrightarrow>
        handleAdditionalInputOutputArtifacts p addIn addOut s = Raised TypeError s)
   \<and> (orEmpty (additionalInputArtifacts p) \<noteq> [] \<and> inputArtifacts (fst s) \<noteq> [] \<longrightarrow>
        configuration
          (action_of (handleAdditionalInputOutputArtifacts p addInputArtifact addOutputArtifact s))
          ''PrimarySource'' = Some (name (inputArtifacts (fst s) ! 0)))"
proof (intro conjI impI)
  show "raised (handleAdditionalInputOutputArtifacts p addIn addOut s) =
     (if orEmpty (additionalInputArtifacts p) \<noteq> [] \<and> inputArtifacts (fst s) = []
      then Some TypeError else None)"
    by (cases "inputArtifacts (fst s)")
       (simp_all add: handleAdditionalInputOutputArtifacts_def)
next
  assume "orEmpty (additionalInputArtifacts p) \<noteq> [] \<and> inputArtifacts (fst s) = []"
  then show "handleAdditionalInputOutputArtifacts p addIn addOut s = Raised TypeError s"
    by (simp add: handleAdditionalInputOutputArtifacts_def)
next
  assume "orEmpty (additionalInputArtifacts p) \<noteq> [] \<and> inputArtifacts (fst s) \<noteq> []"
  then obtain a0 rest where "inputArtifacts (fst s) = a0 # rest"
    and "orEmpty (additionalInputArtifacts p) \<noteq> []"
    by (cases "inputArtifacts (fst s)") auto
  then show "configuration
      (action_of (handleAdditionalInputOutputArtifacts p addInputArtifact addOutputArtifact s))
      ''PrimarySource'' = Some (name (inputArtifacts (fst s) ! 0))"
    by (simp add: handleAdditionalInputOutputArtifacts_def action_of_simps
        fold_addInputArtifact fold_addOutputArtifact)
qed

theorem PrimarySource_needs_a_bound_input_witness:
  "orEmpty (additionalInputArtifacts sixAdditionalInputs) \<noteq> []
   \<and> inputArtifacts (fst (Action ''Build'' codeBuildBounds Map.empty, emptyWorld)) = []
   \<and> handleAdditionalInputOutputArtifacts sixAdditionalInputs addInputArtifact addOutputArtifact
       (Action ''Build'' codeBuildBounds Map.empty, emptyWorld)
       = Raised TypeError (Action ''Build'' codeBuildBounds Map.empty, emptyWorld)
   \<and> inputArtifacts (fst (addInputArtifact (Artifact ''Source'' ''SourceOutput'')
        (Action ''Build'' codeBuildBounds Map.empty, emptyWorld))) \<noteq> []
   \<and> configuration
       (action_of (handleAdditionalInputOutputArtifacts sixAdditionalInputs
          addInputArtifact addOutputArtifact
          (addInputArtifact (Artifact ''Source'' ''SourceOutput'')
             (Action ''Build'' codeBuildBounds Map.empty, emptyWorld))))
       ''PrimarySource'' = Some ''SourceOutput''"
  using PrimarySource_needs_a_bound_input
          [of sixAdditionalInputs addInputArtifact addOutputArtifact
              "(Action ''Build'' codeBuildBounds Map.empty, emptyWorld)"]
        PrimarySource_needs_a_bound_input
          [of sixAdditionalInputs addInputArtifact addOutputArtifact
              "addInputArtifact (Artifact ''Source'' ''SourceOutput'')
                 (Action ''Build'' codeBuildBounds Map.empty, emptyWorld)"]
  by (simp add: sixAdditionalInputs_def Action_def addInputArtifact_def)

section \<open>Looking up the primary output among the additional ones\<close>





end
